theory Spec2Isabelle
  imports Complex_Main
begin

section \<open>Data model of \<open>SphericalCoordinates.cc\<close>\<close>

text \<open>
  The C++ type \<open>double\<close> is modelled by \<^typ>\<open>real\<close>: every arithmetic operation of the
  source is the exact operation on real numbers, \<open>std::pow(x, n)\<close> with a literal
  exponent is \<open>x ^ n\<close>, and \<open>sqrt\<close>, \<open>sin\<close>, \<open>cos\<close>, \<open>atan\<close> are the functions of the
  same names of the library (\<open>atan\<close> is \<^const>\<open>arctan\<close>). Rounding, infinities and NaN
  are outside this model.
\<close>

subsection \<open>Vectors, matrices and angles\<close>

text \<open>
  Modelled from the spec: \<open>Vector3d\<close>, \<open>Matrix3d\<close> and \<open>Angle\<close> come from headers
  (\<open>gz/math/Vector3.hh\<close>, \<open>gz/math/Matrix3.hh\<close>, \<open>gz/math/Angle.hh\<close>) that are not part
  of the sources at hand. A vector has three components read by \<open>X()\<close>, \<open>Y()\<close>, \<open>Z()\<close>
  and written by \<open>X(v)\<close>, \<open>Y(v)\<close>, \<open>Z(v)\<close>; a matrix is built row by row from nine
  numbers; sums, differences and the product of a matrix with a vector are the usual
  ones; an angle holds a value in radians.
\<close>

datatype Vector3d = Vector3d (X: real) (Y: real) (Z: real)

definition set_X :: "Vector3d \<Rightarrow> real \<Rightarrow> Vector3d" where
  "set_X v a = Vector3d a (Y v) (Z v)"

definition set_Y :: "Vector3d \<Rightarrow> real \<Rightarrow> Vector3d" where
  "set_Y v a = Vector3d (X v) a (Z v)"

definition set_Z :: "Vector3d \<Rightarrow> real \<Rightarrow> Vector3d" where
  "set_Z v a = Vector3d (X v) (Y v) a"

instantiation Vector3d :: "{zero, plus, minus}"
begin

definition zero_Vector3d :: Vector3d where
  "zero_Vector3d = Vector3d 0 0 0"

definition plus_Vector3d :: "Vector3d \<Rightarrow> Vector3d \<Rightarrow> Vector3d" where
  "plus_Vector3d u v = Vector3d (X u + X v) (Y u + Y v) (Z u + Z v)"

definition minus_Vector3d :: "Vector3d \<Rightarrow> Vector3d \<Rightarrow> Vector3d" where
  "minus_Vector3d u v = Vector3d (X u - X v) (Y u - Y v) (Z u - Z v)"

instance ..

end

definition scale :: "real \<Rightarrow> Vector3d \<Rightarrow> Vector3d" where
  "scale k v = Vector3d (k * X v) (k * Y v) (k * Z v)"

datatype Matrix3d = Matrix3d real real real real real real real real real

fun times_Matrix3d :: "Matrix3d \<Rightarrow> Vector3d \<Rightarrow> Vector3d" where
  "times_Matrix3d (Matrix3d m00 m01 m02 m10 m11 m12 m20 m21 m22) v =
     Vector3d (m00 * X v + m01 * Y v + m02 * Z v)
              (m10 * X v + m11 * Y v + m12 * Z v)
              (m20 * X v + m21 * Y v + m22 * Z v)"

datatype Angle = Angle (Radian: real)

text \<open>
  The C library's \<open>atan2(y, x)\<close> on real numbers: the angle in \<open>(-\<pi>, \<pi>]\<close> of the point
  \<open>(x, y)\<close>, and \<open>0\<close> at the origin.
\<close>

definition atan2 :: "real \<Rightarrow> real \<Rightarrow> real" where
  "atan2 y x =
     (if 0 < x then arctan (y / x)
      else if x < 0 then (if 0 \<le> y then arctan (y / x) + pi else arctan (y / x) - pi)
      else if 0 < y then pi / 2
      else if y < 0 then - (pi / 2)
      else 0)"

subsection \<open>Enumerations and diagnostics\<close>

text \<open>
  The enumerations \<open>SurfaceType\<close> and \<open>CoordinateType\<close> are declared in the header. The
  source names one surface and five frames and has a \<open>default:\<close> branch in every
  \<open>switch\<close>; the last constructor of each datatype stands for a value of the enumeration
  that is none of the named ones, with its integer value.
\<close>

datatype SurfaceType = EARTH_WGS84 | UnknownSurface int

datatype CoordinateType = SPHERICAL | ECEF | GLOBAL | LOCAL | LOCAL2 | UnknownCoordinate int

text \<open>
  What the source writes to \<open>std::cerr\<close>: one value per message, carrying the tag
  that the message prints.
\<close>

datatype diagnostic =
    Unknown_surface_type SurfaceType
  | Invalid_coordinate_type CoordinateType
  | Unknown_coordinate_type CoordinateType

subsection \<open>The private data\<close>

record SphericalCoordinatesPrivate =
  surfaceType :: SurfaceType
  latitudeReference :: Angle
  longitudeReference :: Angle
  elevationReference :: real
  headingOffset :: Angle
  ellA :: real
  ellB :: real
  ellF :: real
  ellE :: real
  ellP :: real
  rotECEFToGlobal :: Matrix3d
  rotGlobalToECEF :: Matrix3d
  origin :: Vector3d
  cosHea :: real
  sinHea :: real

definition g_EarthWGS84AxisEquatorial :: real where
  "g_EarthWGS84AxisEquatorial = 6378137"

definition g_EarthWGS84AxisPolar :: real where
  "g_EarthWGS84AxisPolar = 6356752.314245"

definition g_EarthWGS84Flattening :: real where
  "g_EarthWGS84Flattening = 1 / 298.257223563"

section \<open>Operations\<close>

subsection \<open>\<open>SetSurface\<close>\<close>

definition SetSurface ::
  "SphericalCoordinatesPrivate \<Rightarrow> SurfaceType \<Rightarrow> SphericalCoordinatesPrivate \<times> diagnostic list"
where
  "SetSurface d t =
     (let d = d\<lparr>surfaceType := t\<rparr> in
      case surfaceType d of
        EARTH_WGS84 \<Rightarrow>
          (let d = d\<lparr>ellA := g_EarthWGS84AxisEquatorial\<rparr>;
               d = d\<lparr>ellB := g_EarthWGS84AxisPolar\<rparr>;
               d = d\<lparr>ellF := g_EarthWGS84Flattening\<rparr>;
               d = d\<lparr>ellE := sqrt (1 - (ellB d)\<^sup>2 / (ellA d)\<^sup>2)\<rparr>;
               d = d\<lparr>ellP := sqrt ((ellA d)\<^sup>2 / (ellB d)\<^sup>2 - 1)\<rparr>
           in (d, []))
      | UnknownSurface n \<Rightarrow> (d, [Unknown_surface_type (surfaceType d)]))"

subsection \<open>\<open>PositionTransform\<close>\<close>

text \<open>
  The method is \<open>const\<close>: it reads the private data and returns the vector, together
  with the messages it wrote. Stage 1 yields \<open>None\<close> where the source returns early.
\<close>

definition PositionTransform ::
  "SphericalCoordinatesPrivate \<Rightarrow> Vector3d \<Rightarrow> CoordinateType \<Rightarrow> CoordinateType
     \<Rightarrow> Vector3d \<times> diagnostic list"
where
  "PositionTransform d pos inp out =
     (let tmp = pos;
          cosLat = cos (X pos);
          sinLat = sin (X pos);
          cosLon = cos (Y pos);
          sinLon = sin (Y pos);
          curvature = 1 - ellE d * ellE d * sinLat * sinLat;
          curvature = ellA d / sqrt curvature;
          stage1 =
            (case inp of
               LOCAL \<Rightarrow>
                 (let tmp = set_X tmp (- X pos * cosHea d + Y pos * sinHea d);
                      tmp = set_Y tmp (- X pos * sinHea d - Y pos * cosHea d)
                  in Some (origin d + times_Matrix3d (rotGlobalToECEF d) tmp))
             | LOCAL2 \<Rightarrow>
                 (let tmp = set_X tmp (X pos * cosHea d + Y pos * sinHea d);
                      tmp = set_Y tmp (- X pos * sinHea d + Y pos * cosHea d)
                  in Some (origin d + times_Matrix3d (rotGlobalToECEF d) tmp))
             | GLOBAL \<Rightarrow> Some (origin d + times_Matrix3d (rotGlobalToECEF d) tmp)
             | SPHERICAL \<Rightarrow>
                 (let tmp = set_X tmp ((Z pos + curvature) * cosLat * cosLon);
                      tmp = set_Y tmp ((Z pos + curvature) * cosLat * sinLon);
                      tmp = set_Z tmp (((ellB d * ellB d) / (ellA d * ellA d) * curvature
                                         + Z pos) * sinLat)
                  in Some tmp)
             | ECEF \<Rightarrow> Some tmp
             | UnknownCoordinate n \<Rightarrow> None)
      in case stage1 of
           None \<Rightarrow> (pos, [Invalid_coordinate_type inp])
         | Some tmp \<Rightarrow>
             (case out of
                SPHERICAL \<Rightarrow>
                  (let p = sqrt (X tmp * X tmp + Y tmp * Y tmp);
                       theta = arctan ((Z tmp * ellA d) / (p * ellB d));
                       lat = arctan ((Z tmp + (ellP d)\<^sup>2 * ellB d * (sin theta) ^ 3) /
                                     (p - (ellE d)\<^sup>2 * ellA d * (cos theta) ^ 3));
                       lon = atan2 (Y tmp) (X tmp);
                       nCurvature = 1 - (ellE d)\<^sup>2 * (sin lat)\<^sup>2;
                       nCurvature = ellA d / sqrt nCurvature;
                       tmp = set_X tmp lat;
                       tmp = set_Y tmp lon;
                       tmp = set_Z tmp (p / cos lat - nCurvature)
                   in (tmp, []))
              | GLOBAL \<Rightarrow> (times_Matrix3d (rotECEFToGlobal d) (tmp - origin d), [])
              | LOCAL \<Rightarrow>
                  (let tmp = times_Matrix3d (rotECEFToGlobal d) (tmp - origin d);
                       tmp = Vector3d (X tmp * cosHea d - Y tmp * sinHea d)
                                      (X tmp * sinHea d + Y tmp * cosHea d)
                                      (Z tmp)
                   in (tmp, []))
              | LOCAL2 \<Rightarrow>
                  (let tmp = times_Matrix3d (rotECEFToGlobal d) (tmp - origin d);
                       tmp = Vector3d (X tmp * cosHea d - Y tmp * sinHea d)
                                      (X tmp * sinHea d + Y tmp * cosHea d)
                                      (Z tmp)
                   in (tmp, []))
              | ECEF \<Rightarrow> (tmp, [])
              | UnknownCoordinate n \<Rightarrow> (pos, [Unknown_coordinate_type out])))"

subsection \<open>\<open>UpdateTransformationMatrix\<close> and the setters of the reference\<close>

definition UpdateTransformationMatrix ::
  "SphericalCoordinatesPrivate \<Rightarrow> SphericalCoordinatesPrivate \<times> diagnostic list"
where
  "UpdateTransformationMatrix d =
     (let cosLat = cos (Radian (latitudeReference d));
          sinLat = sin (Radian (latitudeReference d));
          cosLon = cos (Radian (longitudeReference d));
          sinLon = sin (Radian (longitudeReference d));
          d = d\<lparr>rotECEFToGlobal := Matrix3d
                 (- sinLon)          cosLon              0
                 (- cosLon * sinLat) (- sinLon * sinLat) cosLat
                 (cosLon * cosLat)   (sinLon * cosLat)   sinLat\<rparr>;
          d = d\<lparr>rotGlobalToECEF := Matrix3d
                 (- sinLon) (- cosLon * sinLat) (cosLon * cosLat)
                 cosLon     (- sinLon * sinLat) (sinLon * cosLat)
                 0          cosLat              sinLat\<rparr>;
          d = d\<lparr>cosHea := cos (- Radian (headingOffset d))\<rparr>;
          d = d\<lparr>sinHea := sin (- Radian (headingOffset d))\<rparr>;
          d = d\<lparr>origin := Vector3d (Radian (latitudeReference d))
                                   (Radian (longitudeReference d))
                                   (elevationReference d)\<rparr>;
          r = PositionTransform d (origin d) SPHERICAL ECEF
      in (d\<lparr>origin := fst r\<rparr>, snd r))"

definition SetLatitudeReference ::
  "SphericalCoordinatesPrivate \<Rightarrow> Angle \<Rightarrow> SphericalCoordinatesPrivate \<times> diagnostic list"
where
  "SetLatitudeReference d a = UpdateTransformationMatrix (d\<lparr>latitudeReference := a\<rparr>)"

definition SetLongitudeReference ::
  "SphericalCoordinatesPrivate \<Rightarrow> Angle \<Rightarrow> SphericalCoordinatesPrivate \<times> diagnostic list"
where
  "SetLongitudeReference d a = UpdateTransformationMatrix (d\<lparr>longitudeReference := a\<rparr>)"

definition SetElevationReference ::
  "SphericalCoordinatesPrivate \<Rightarrow> real \<Rightarrow> SphericalCoordinatesPrivate \<times> diagnostic list"
where
  "SetElevationReference d e = UpdateTransformationMatrix (d\<lparr>elevationReference := e\<rparr>)"

definition SetHeadingOffset ::
  "SphericalCoordinatesPrivate \<Rightarrow> Angle \<Rightarrow> SphericalCoordinatesPrivate \<times> diagnostic list"
where
  "SetHeadingOffset d a =
     UpdateTransformationMatrix (d\<lparr>headingOffset := Angle (Radian a)\<rparr>)"

subsection \<open>\<open>VelocityTransform\<close>\<close>

definition VelocityTransform ::
  "SphericalCoordinatesPrivate \<Rightarrow> Vector3d \<Rightarrow> CoordinateType \<Rightarrow> CoordinateType
     \<Rightarrow> Vector3d \<times> diagnostic list"
where
  "VelocityTransform d vel inp out =
     (if inp = SPHERICAL \<or> out = SPHERICAL then (vel, [])
      else
        let tmp = vel;
            stage1 =
              (case inp of
                 LOCAL \<Rightarrow>
                   (let tmp = set_X tmp (- X vel * cosHea d + Y vel * sinHea d);
                        tmp = set_Y tmp (- X vel * sinHea d - Y vel * cosHea d)
                    in Some (times_Matrix3d (rotGlobalToECEF d) tmp))
               | LOCAL2 \<Rightarrow>
                   (let tmp = set_X tmp (X vel * cosHea d + Y vel * sinHea d);
                        tmp = set_Y tmp (- X vel * sinHea d + Y vel * cosHea d)
                    in Some (times_Matrix3d (rotGlobalToECEF d) tmp))
               | GLOBAL \<Rightarrow> Some (times_Matrix3d (rotGlobalToECEF d) tmp)
               | ECEF \<Rightarrow> Some vel
               | _ \<Rightarrow> None)
        in case stage1 of
             None \<Rightarrow> (vel, [Unknown_coordinate_type inp])
           | Some tmp \<Rightarrow>
               (case out of
                  ECEF \<Rightarrow> (tmp, [])
                | GLOBAL \<Rightarrow> (times_Matrix3d (rotECEFToGlobal d) tmp, [])
                | LOCAL \<Rightarrow>
                    (let tmp = times_Matrix3d (rotECEFToGlobal d) tmp;
                         tmp = Vector3d (X tmp * cosHea d - Y tmp * sinHea d)
                                        (X tmp * sinHea d + Y tmp * cosHea d)
                                        (Z tmp)
                     in (tmp, []))
                | LOCAL2 \<Rightarrow>
                    (let tmp = times_Matrix3d (rotECEFToGlobal d) tmp;
                         tmp = Vector3d (X tmp * cosHea d - Y tmp * sinHea d)
                                        (X tmp * sinHea d + Y tmp * cosHea d)
                                        (Z tmp)
                     in (tmp, []))
                | _ \<Rightarrow> (vel, [Unknown_coordinate_type out])))"

subsection \<open>Constructors\<close>

text \<open>
  \<open>new SphericalCoordinatesPrivate\<close> leaves the members of type \<open>double\<close>, the surface
  type, the matrices and the origin as the allocated memory \<open>mem\<close> has them; the three
  angles are constructed as zero angles.
\<close>

definition new_SphericalCoordinatesPrivate ::
  "SphericalCoordinatesPrivate \<Rightarrow> SphericalCoordinatesPrivate"
where
  "new_SphericalCoordinatesPrivate mem =
     mem\<lparr>latitudeReference := Angle 0, longitudeReference := Angle 0,
         headingOffset := Angle 0\<rparr>"

text \<open>\<open>SphericalCoordinates(const SurfaceType _type)\<close>; the default constructor is this
  one at \<open>EARTH_WGS84\<close>.\<close>

definition SphericalCoordinates ::
  "SphericalCoordinatesPrivate \<Rightarrow> SurfaceType \<Rightarrow> SphericalCoordinatesPrivate \<times> diagnostic list"
where
  "SphericalCoordinates mem t =
     (let d = new_SphericalCoordinatesPrivate mem;
          r1 = SetSurface d t;
          r2 = SetElevationReference (fst r1) 0
      in (fst r2, snd r1 @ snd r2))"

section \<open>Notions of the specification\<close>

subsection \<open>The cache and its recomputation\<close>

text \<open>The two rotations of the specification, for a latitude and a longitude.\<close>

definition spec_rotECEFToGlobal :: "real \<Rightarrow> real \<Rightarrow> Matrix3d" where
  "spec_rotECEFToGlobal lat lon = Matrix3d
     (- sin lon)           (cos lon)             0
     (- cos lon * sin lat) (- sin lon * sin lat) (cos lat)
     (cos lon * cos lat)   (sin lon * cos lat)   (sin lat)"

definition spec_rotGlobalToECEF :: "real \<Rightarrow> real \<Rightarrow> Matrix3d" where
  "spec_rotGlobalToECEF lat lon = Matrix3d
     (- sin lon) (- cos lon * sin lat) (cos lon * cos lat)
     (cos lon)   (- sin lon * sin lat) (sin lon * cos lat)
     0           (cos lat)             (sin lat)"

text \<open>
  The cached rotations and the cached heading terms are the ones that the reference
  latitude, longitude and heading stored now give.
\<close>

definition rotation_cache_current :: "SphericalCoordinatesPrivate \<Rightarrow> bool" where
  "rotation_cache_current d \<longleftrightarrow>
     rotECEFToGlobal d =
       spec_rotECEFToGlobal (Radian (latitudeReference d)) (Radian (longitudeReference d)) \<and>
     rotGlobalToECEF d =
       spec_rotGlobalToECEF (Radian (latitudeReference d)) (Radian (longitudeReference d)) \<and>
     cosHea d = cos (- Radian (headingOffset d)) \<and>
     sinHea d = sin (- Radian (headingOffset d))"

text \<open>
  The cached origin is the reference point, transformed from \<open>SPHERICAL\<close> to \<open>ECEF\<close>
  with the ellipsoid parameters stored now.
\<close>

definition origin_current :: "SphericalCoordinatesPrivate \<Rightarrow> bool" where
  "origin_current d \<longleftrightarrow>
     origin d =
       fst (PositionTransform d
              (Vector3d (Radian (latitudeReference d)) (Radian (longitudeReference d))
                        (elevationReference d))
              SPHERICAL ECEF)"

definition cache_current :: "SphericalCoordinatesPrivate \<Rightarrow> bool" where
  "cache_current d \<longleftrightarrow> rotation_cache_current d \<and> origin_current d"

text \<open>
  The ellipsoid parameters that the transforms read are the ones \<open>SetSurface\<close> stores
  for \<open>EARTH_WGS84\<close>, as in every object constructed with that surface type.
\<close>

definition ellipsoid_is_WGS84 :: "SphericalCoordinatesPrivate \<Rightarrow> bool" where
  "ellipsoid_is_WGS84 d \<longleftrightarrow>
     ellA d = g_EarthWGS84AxisEquatorial \<and> ellB d = g_EarthWGS84AxisPolar \<and>
     ellE d = sqrt (1 - g_EarthWGS84AxisPolar\<^sup>2 / g_EarthWGS84AxisEquatorial\<^sup>2)"

subsection \<open>Numerical tolerance\<close>

text \<open>
  Two numbers agree within the relative tolerance \<open>10\<^sup>-\<^sup>6\<close>, taken relative to the larger
  magnitude and to no less than \<open>1\<close>; two vectors agree when their components do.
\<close>

definition within_tolerance :: "real \<Rightarrow> real \<Rightarrow> bool" where
  "within_tolerance a b \<longleftrightarrow> \<bar>a - b\<bar> \<le> (1 / 1000000) * max 1 (max \<bar>a\<bar> \<bar>b\<bar>)"

definition approx_Vector3d :: "Vector3d \<Rightarrow> Vector3d \<Rightarrow> bool" where
  "approx_Vector3d u v \<longleftrightarrow>
     within_tolerance (X u) (X v) \<and> within_tolerance (Y u) (Y v) \<and>
     within_tolerance (Z u) (Z v)"

subsection \<open>The geodetic formulas\<close>

text \<open>
  From a geodetic position \<open>(lat, lon, elev)\<close> to \<open>ECEF\<close>, with \<open>N = a / sqrt (1 - e\<^sup>2 sin\<^sup>2 lat)\<close>.
\<close>

definition spec_curvature :: "real \<Rightarrow> real \<Rightarrow> real \<Rightarrow> real" where
  "spec_curvature a e lat = a / sqrt (1 - e\<^sup>2 * (sin lat)\<^sup>2)"

definition spec_geodetic_to_ECEF :: "real \<Rightarrow> real \<Rightarrow> real \<Rightarrow> Vector3d \<Rightarrow> Vector3d" where
  "spec_geodetic_to_ECEF a b e pos =
     (let lat = X pos; lon = Y pos; elev = Z pos; N = spec_curvature a e lat
      in Vector3d ((elev + N) * cos lat * cos lon)
                  ((elev + N) * cos lat * sin lon)
                  ((b\<^sup>2 / a\<^sup>2 * N + elev) * sin lat))"

text \<open>
  Bowring's closed form from \<open>ECEF\<close> to a geodetic position; \<open>e'\<close> is the second
  eccentricity.
\<close>

definition spec_Bowring :: "real \<Rightarrow> real \<Rightarrow> real \<Rightarrow> real \<Rightarrow> Vector3d \<Rightarrow> Vector3d" where
  "spec_Bowring a b e e' v =
     (let p = sqrt ((X v)\<^sup>2 + (Y v)\<^sup>2);
          \<theta> = arctan (Z v * a / (p * b));
          lat = arctan ((Z v + e'\<^sup>2 * b * (sin \<theta>) ^ 3) / (p - e\<^sup>2 * a * (cos \<theta>) ^ 3));
          lon = atan2 (Y v) (X v)
      in Vector3d lat lon (p / cos lat - spec_curvature a e lat))"

subsection \<open>The heading rotations\<close>

text \<open>
  The matrix \<open>(-cosHea, sinHea; -sinHea, -cosHea)\<close> of \<open>LOCAL\<close> and the matrix
  \<open>(cosHea, sinHea; -sinHea, cosHea)\<close> of \<open>LOCAL2\<close>, applied to the first two components.
\<close>

definition spec_rotate_LOCAL :: "real \<Rightarrow> real \<Rightarrow> Vector3d \<Rightarrow> Vector3d" where
  "spec_rotate_LOCAL c s p =
     Vector3d (- c * X p + s * Y p) (- s * X p + - c * Y p) (Z p)"

definition spec_rotate_LOCAL2 :: "real \<Rightarrow> real \<Rightarrow> Vector3d \<Rightarrow> Vector3d" where
  "spec_rotate_LOCAL2 c s p =
     Vector3d (c * X p + s * Y p) (- s * X p + c * Y p) (Z p)"

text \<open>
  The rotation of stage 2 for \<open>LOCAL\<close> and \<open>LOCAL2\<close>, the matrix
  \<open>(cosHea, -sinHea; sinHea, cosHea)\<close>.
\<close>

definition spec_rotate_back :: "real \<Rightarrow> real \<Rightarrow> Vector3d \<Rightarrow> Vector3d" where
  "spec_rotate_back c s v = Vector3d (X v * c - Y v * s) (X v * s + Y v * c) (Z v)"

text \<open>
  "The \<open>LOCAL2\<close> result differs from the \<open>LOCAL\<close> result only in the sign applied to the
  first rotated component": the \<open>ECEF\<close> point of \<open>LOCAL2\<close> is composed from the rotated
  vector of \<open>LOCAL\<close>, or from that vector with the sign of its first component changed.
\<close>

definition LOCAL2_is_LOCAL_up_to_first_sign ::
  "SphericalCoordinatesPrivate \<Rightarrow> Vector3d \<Rightarrow> bool"
where
  "LOCAL2_is_LOCAL_up_to_first_sign d p \<longleftrightarrow>
     (let r = spec_rotate_LOCAL (cosHea d) (sinHea d) p;
          r' = Vector3d (- X r) (Y r) (Z r);
          res2 = fst (PositionTransform d p LOCAL2 ECEF)
      in res2 = origin d + times_Matrix3d (rotGlobalToECEF d) r \<or>
         res2 = origin d + times_Matrix3d (rotGlobalToECEF d) r')"

text \<open>
  The two stages of \<open>VelocityTransform\<close> for the frames other than \<open>SPHERICAL\<close>, written
  as functions of the vector; the proofs of linearity go through them.
\<close>

definition velocity_to_ECEF ::
  "SphericalCoordinatesPrivate \<Rightarrow> CoordinateType \<Rightarrow> Vector3d \<Rightarrow> Vector3d"
where
  "velocity_to_ECEF d inp v =
     (case inp of
        LOCAL \<Rightarrow>
          times_Matrix3d (rotGlobalToECEF d) (spec_rotate_LOCAL (cosHea d) (sinHea d) v)
      | LOCAL2 \<Rightarrow>
          times_Matrix3d (rotGlobalToECEF d) (spec_rotate_LOCAL2 (cosHea d) (sinHea d) v)
      | GLOBAL \<Rightarrow> times_Matrix3d (rotGlobalToECEF d) v
      | _ \<Rightarrow> v)"

definition velocity_from_ECEF ::
  "SphericalCoordinatesPrivate \<Rightarrow> CoordinateType \<Rightarrow> Vector3d \<Rightarrow> Vector3d"
where
  "velocity_from_ECEF d out w =
     (case out of
        LOCAL \<Rightarrow>
          spec_rotate_back (cosHea d) (sinHea d) (times_Matrix3d (rotECEFToGlobal d) w)
      | LOCAL2 \<Rightarrow>
          spec_rotate_back (cosHea d) (sinHea d) (times_Matrix3d (rotECEFToGlobal d) w)
      | GLOBAL \<Rightarrow> times_Matrix3d (rotECEFToGlobal d) w
      | _ \<Rightarrow> w)"

section \<open>Example objects\<close>

text \<open>
  Allocated memory that holds zeros. The constructor below overwrites every member of
  type \<open>double\<close>, the surface type, the matrices and the origin.
\<close>

definition zeroed_memory :: SphericalCoordinatesPrivate where
  "zeroed_memory =
     \<lparr>surfaceType = UnknownSurface 0,
      latitudeReference = Angle 0, longitudeReference = Angle 0,
      elevationReference = 0, headingOffset = Angle 0,
      ellA = 0, ellB = 0, ellF = 0, ellE = 0, ellP = 0,
      rotECEFToGlobal = Matrix3d 0 0 0 0 0 0 0 0 0,
      rotGlobalToECEF = Matrix3d 0 0 0 0 0 0 0 0 0,
      origin = Vector3d 0 0 0, cosHea = 0, sinHea = 0\<rparr>"

text \<open>The object of the default constructor: WGS84, reference point and heading zero.\<close>

definition default_object :: SphericalCoordinatesPrivate where
  "default_object = fst (SphericalCoordinates zeroed_memory EARTH_WGS84)"

text \<open>The default object after \<open>SetHeadingOffset\<close> with half a turn.\<close>

definition heading_pi_object :: SphericalCoordinatesPrivate where
  "heading_pi_object = fst (SetHeadingOffset default_object (Angle pi))"

section \<open>Basic facts\<close>

subsection \<open>Vectors and rotations\<close>

lemma Vector3d_add_diff_cancel: "(u + v) - u = (v::Vector3d)"
  by (cases u; cases v) (simp add: plus_Vector3d_def minus_Vector3d_def)

lemma Vector3d_add_diff_inverse: "u + (w - u) = (w::Vector3d)"
  by (cases u; cases w) (simp add: plus_Vector3d_def minus_Vector3d_def)

lemma times_Matrix3d_add: "times_Matrix3d M (u + v) = times_Matrix3d M u + times_Matrix3d M v"
  by (cases M) (simp add: plus_Vector3d_def algebra_simps)

lemma times_Matrix3d_scale: "times_Matrix3d M (scale k v) = scale k (times_Matrix3d M v)"
  by (cases M) (simp add: scale_def algebra_simps)

lemma times_Matrix3d_zero: "times_Matrix3d M 0 = 0"
  by (cases M) (simp add: zero_Vector3d_def)

text \<open>The two rotations of the cache are inverse to each other.\<close>

lemma rot_ECEFToGlobal_GlobalToECEF:
  "times_Matrix3d (spec_rotECEFToGlobal lat lon)
     (times_Matrix3d (spec_rotGlobalToECEF lat lon) v) = v"
proof -
  have unit: "(sin lon)\<^sup>2 + (cos lon)\<^sup>2 = 1" "(sin lat)\<^sup>2 + (cos lat)\<^sup>2 = 1"
    by simp_all
  obtain x y z where v: "v = Vector3d x y z" by (cases v)
  show ?thesis
    unfolding v spec_rotECEFToGlobal_def spec_rotGlobalToECEF_def
    apply simp
    using unit apply (intro conjI)
    by algebra+
qed

lemma rot_GlobalToECEF_ECEFToGlobal:
  "times_Matrix3d (spec_rotGlobalToECEF lat lon)
     (times_Matrix3d (spec_rotECEFToGlobal lat lon) v) = v"
proof -
  have unit: "(sin lon)\<^sup>2 + (cos lon)\<^sup>2 = 1" "(sin lat)\<^sup>2 + (cos lat)\<^sup>2 = 1"
    by simp_all
  obtain x y z where v: "v = Vector3d x y z" by (cases v)
  show ?thesis
    unfolding v spec_rotECEFToGlobal_def spec_rotGlobalToECEF_def
    apply simp
    using unit apply (intro conjI)
    by algebra+
qed

text \<open>The rotation of stage 2 undoes the rotation of \<open>LOCAL2\<close>, and conversely.\<close>

lemma rotate_back_LOCAL2:
  assumes "c\<^sup>2 + s\<^sup>2 = 1"
  shows "spec_rotate_back c s (spec_rotate_LOCAL2 c s p) = p"
    and "spec_rotate_LOCAL2 c s (spec_rotate_back c s p) = p"
proof -
  obtain x y z where p: "p = Vector3d x y z" by (cases p)
  show "spec_rotate_back c s (spec_rotate_LOCAL2 c s p) = p"
    unfolding p spec_rotate_back_def spec_rotate_LOCAL2_def
    apply simp using assms by algebra
  show "spec_rotate_LOCAL2 c s (spec_rotate_back c s p) = p"
    unfolding p spec_rotate_back_def spec_rotate_LOCAL2_def
    apply simp using assms by algebra
qed

lemma rotate_linear:
  "spec_rotate_LOCAL c s (u + v) = spec_rotate_LOCAL c s u + spec_rotate_LOCAL c s v"
  "spec_rotate_LOCAL2 c s (u + v) = spec_rotate_LOCAL2 c s u + spec_rotate_LOCAL2 c s v"
  "spec_rotate_back c s (u + v) = spec_rotate_back c s u + spec_rotate_back c s v"
  "spec_rotate_LOCAL c s (scale k v) = scale k (spec_rotate_LOCAL c s v)"
  "spec_rotate_LOCAL2 c s (scale k v) = scale k (spec_rotate_LOCAL2 c s v)"
  "spec_rotate_back c s (scale k v) = scale k (spec_rotate_back c s v)"
  "spec_rotate_LOCAL c s 0 = 0"
  "spec_rotate_LOCAL2 c s 0 = 0"
  "spec_rotate_back c s 0 = 0"
  by (simp_all add: spec_rotate_LOCAL_def spec_rotate_LOCAL2_def spec_rotate_back_def
      plus_Vector3d_def scale_def zero_Vector3d_def algebra_simps)

lemma rotate_LOCAL_eq:
  "set_Y (set_X p (- X p * c + Y p * s)) (- X p * s - Y p * c) = spec_rotate_LOCAL c s p"
  "set_Y (set_X p (X p * c + Y p * s)) (- X p * s + Y p * c) = spec_rotate_LOCAL2 c s p"
  by (simp_all add: set_X_def set_Y_def spec_rotate_LOCAL_def spec_rotate_LOCAL2_def)

lemma sin_cos_270: "sin (3 * pi / 2) = - 1" "cos (3 * pi / 2) = 0"
  using sin_3over2_pi cos_3over2_pi by (simp_all add: mult.commute)

subsection \<open>The stages of \<open>PositionTransform\<close>\<close>

lemma PositionTransform_SPHERICAL_ECEF:
  "PositionTransform d pos SPHERICAL ECEF =
     (Vector3d
        ((Z pos + ellA d / sqrt (1 - ellE d * ellE d * sin (X pos) * sin (X pos)))
           * cos (X pos) * cos (Y pos))
        ((Z pos + ellA d / sqrt (1 - ellE d * ellE d * sin (X pos) * sin (X pos)))
           * cos (X pos) * sin (Y pos))
        (((ellB d * ellB d) / (ellA d * ellA d)
            * (ellA d / sqrt (1 - ellE d * ellE d * sin (X pos) * sin (X pos))) + Z pos)
           * sin (X pos)), [])"
  by (simp add: PositionTransform_def Let_def set_X_def set_Y_def set_Z_def)

lemma PositionTransform_SPHERICAL_ECEF_cong:
  assumes "ellA d' = ellA d" "ellB d' = ellB d" "ellE d' = ellE d"
  shows "PositionTransform d' pos SPHERICAL ECEF = PositionTransform d pos SPHERICAL ECEF"
  by (simp add: PositionTransform_SPHERICAL_ECEF assms)

lemma PositionTransform_to_ECEF:
  "PositionTransform d p ECEF ECEF = (p, [])"
  "PositionTransform d p GLOBAL ECEF = (origin d + times_Matrix3d (rotGlobalToECEF d) p, [])"
  "PositionTransform d p LOCAL ECEF =
     (origin d + times_Matrix3d (rotGlobalToECEF d)
                   (spec_rotate_LOCAL (cosHea d) (sinHea d) p), [])"
  "PositionTransform d p LOCAL2 ECEF =
     (origin d + times_Matrix3d (rotGlobalToECEF d)
                   (spec_rotate_LOCAL2 (cosHea d) (sinHea d) p), [])"
  unfolding PositionTransform_def Let_def rotate_LOCAL_eq by simp_all

lemma PositionTransform_from_ECEF:
  "PositionTransform d w ECEF GLOBAL = (times_Matrix3d (rotECEFToGlobal d) (w - origin d), [])"
  "PositionTransform d w ECEF LOCAL =
     (spec_rotate_back (cosHea d) (sinHea d)
        (times_Matrix3d (rotECEFToGlobal d) (w - origin d)), [])"
  "PositionTransform d w ECEF LOCAL2 =
     (spec_rotate_back (cosHea d) (sinHea d)
        (times_Matrix3d (rotECEFToGlobal d) (w - origin d)), [])"
  by (simp_all add: PositionTransform_def Let_def spec_rotate_back_def)

text \<open>Between two recognised frames the transform goes through \<open>ECEF\<close>.\<close>

lemma PositionTransform_pivot:
  assumes "inp \<in> {SPHERICAL, ECEF, GLOBAL, LOCAL, LOCAL2}"
      and "out \<in> {SPHERICAL, ECEF, GLOBAL, LOCAL, LOCAL2}"
  shows "PositionTransform d p inp out =
         PositionTransform d (fst (PositionTransform d p inp ECEF)) ECEF out"
  using assms by (auto simp add: PositionTransform_def Let_def)

lemma heading_unit: "rotation_cache_current d \<Longrightarrow> (cosHea d)\<^sup>2 + (sinHea d)\<^sup>2 = 1"
  by (simp add: rotation_cache_current_def)

lemma to_ECEF_from_ECEF:
  assumes "rotation_cache_current d" and "A \<in> {LOCAL2, GLOBAL, ECEF}"
  shows "PositionTransform d (fst (PositionTransform d p A ECEF)) ECEF A = (p, [])"
  using assms(2) heading_unit[OF assms(1)] assms(1)
  by (auto simp add: PositionTransform_to_ECEF PositionTransform_from_ECEF
      Vector3d_add_diff_cancel rot_ECEFToGlobal_GlobalToECEF rotate_back_LOCAL2
      rotation_cache_current_def)

lemma from_ECEF_to_ECEF:
  assumes "rotation_cache_current d" and "B \<in> {LOCAL2, GLOBAL, ECEF}"
  shows "PositionTransform d (fst (PositionTransform d w ECEF B)) B ECEF = (w, [])"
  using assms(2) heading_unit[OF assms(1)] assms(1)
  by (auto simp add: PositionTransform_to_ECEF PositionTransform_from_ECEF
      Vector3d_add_diff_inverse rot_GlobalToECEF_ECEFToGlobal rotate_back_LOCAL2
      rotation_cache_current_def)

subsection \<open>The setters and the cache\<close>

lemma SetSurface_WGS84:
  "fst (SetSurface d EARTH_WGS84) =
     d\<lparr>surfaceType := EARTH_WGS84,
       ellA := g_EarthWGS84AxisEquatorial, ellB := g_EarthWGS84AxisPolar,
       ellF := g_EarthWGS84Flattening,
       ellE := sqrt (1 - g_EarthWGS84AxisPolar\<^sup>2 / g_EarthWGS84AxisEquatorial\<^sup>2),
       ellP := sqrt (g_EarthWGS84AxisEquatorial\<^sup>2 / g_EarthWGS84AxisPolar\<^sup>2 - 1)\<rparr>"
  by (simp add: SetSurface_def Let_def)

lemma SetSurface_fields:
  "rotECEFToGlobal (fst (SetSurface d t)) = rotECEFToGlobal d"
  "rotGlobalToECEF (fst (SetSurface d t)) = rotGlobalToECEF d"
  "cosHea (fst (SetSurface d t)) = cosHea d"
  "sinHea (fst (SetSurface d t)) = sinHea d"
  "origin (fst (SetSurface d t)) = origin d"
  "latitudeReference (fst (SetSurface d t)) = latitudeReference d"
  "longitudeReference (fst (SetSurface d t)) = longitudeReference d"
  "elevationReference (fst (SetSurface d t)) = elevationReference d"
  "headingOffset (fst (SetSurface d t)) = headingOffset d"
  "surfaceType (fst (SetSurface d t)) = t"
  by (cases t; simp add: SetSurface_def Let_def)+

lemma Update_fields:
  "rotECEFToGlobal (fst (UpdateTransformationMatrix d)) =
     spec_rotECEFToGlobal (Radian (latitudeReference d)) (Radian (longitudeReference d))"
  "rotGlobalToECEF (fst (UpdateTransformationMatrix d)) =
     spec_rotGlobalToECEF (Radian (latitudeReference d)) (Radian (longitudeReference d))"
  "cosHea (fst (UpdateTransformationMatrix d)) = cos (- Radian (headingOffset d))"
  "sinHea (fst (UpdateTransformationMatrix d)) = sin (- Radian (headingOffset d))"
  "origin (fst (UpdateTransformationMatrix d)) =
     fst (PositionTransform d
            (Vector3d (Radian (latitudeReference d)) (Radian (longitudeReference d))
                      (elevationReference d))
            SPHERICAL ECEF)"
  "surfaceType (fst (UpdateTransformationMatrix d)) = surfaceType d"
  "latitudeReference (fst (UpdateTransformationMatrix d)) = latitudeReference d"
  "longitudeReference (fst (UpdateTransformationMatrix d)) = longitudeReference d"
  "elevationReference (fst (UpdateTransformationMatrix d)) = elevationReference d"
  "headingOffset (fst (UpdateTransformationMatrix d)) = headingOffset d"
  "ellA (fst (UpdateTransformationMatrix d)) = ellA d"
  "ellB (fst (UpdateTransformationMatrix d)) = ellB d"
  "ellF (fst (UpdateTransformationMatrix d)) = ellF d"
  "ellE (fst (UpdateTransformationMatrix d)) = ellE d"
  "ellP (fst (UpdateTransformationMatrix d)) = ellP d"
  by (simp_all add: UpdateTransformationMatrix_def Let_def PositionTransform_SPHERICAL_ECEF
      spec_rotECEFToGlobal_def spec_rotGlobalToECEF_def)

lemma cache_current_Update: "cache_current (fst (UpdateTransformationMatrix d))"
  by (simp add: cache_current_def rotation_cache_current_def origin_current_def Update_fields
      PositionTransform_SPHERICAL_ECEF)

lemma rotation_cache_SetSurface:
  "rotation_cache_current (fst (SetSurface d t)) = rotation_cache_current d"
  by (simp add: rotation_cache_current_def SetSurface_fields)

lemma origin_current_SetSurface:
  assumes "ellA (fst (SetSurface d t)) = ellA d" "ellB (fst (SetSurface d t)) = ellB d"
          "ellE (fst (SetSurface d t)) = ellE d"
  shows "origin_current (fst (SetSurface d t)) = origin_current d"
  by (simp add: origin_current_def SetSurface_fields
      PositionTransform_SPHERICAL_ECEF_cong[OF assms])

text \<open>
  An object whose cache is current and whose ellipsoid parameters are those of WGS84
  keeps both properties under \<open>SetSurface\<close> with any surface type, since the call then
  stores the parameters again or stores none; the constructor with \<open>EARTH_WGS84\<close> yields
  such an object from any allocated memory.
\<close>

lemma SetSurface_keeps_cache_WGS84:
  assumes "cache_current d" and "ellipsoid_is_WGS84 d"
  shows "cache_current (fst (SetSurface d t)) \<and> ellipsoid_is_WGS84 (fst (SetSurface d t))"
proof -
  have same: "ellA (fst (SetSurface d t)) = ellA d" "ellB (fst (SetSurface d t)) = ellB d"
    "ellE (fst (SetSurface d t)) = ellE d"
    using assms(2) by (cases t; simp add: ellipsoid_is_WGS84_def SetSurface_def Let_def)+
  have "cache_current (fst (SetSurface d t))"
    using assms(1)
    by (simp add: cache_current_def rotation_cache_SetSurface origin_current_SetSurface[OF same])
  then show ?thesis
    using assms(2) same by (simp add: ellipsoid_is_WGS84_def)
qed

lemma SphericalCoordinates_WGS84:
  "cache_current (fst (SphericalCoordinates mem EARTH_WGS84)) \<and>
   ellipsoid_is_WGS84 (fst (SphericalCoordinates mem EARTH_WGS84))"
  by (simp add: SphericalCoordinates_def Let_def SetElevationReference_def cache_current_Update
      ellipsoid_is_WGS84_def Update_fields SetSurface_WGS84
      new_SphericalCoordinatesPrivate_def)

subsection \<open>The example objects\<close>

lemma default_object_fields:
  "rotECEFToGlobal default_object = Matrix3d 0 1 0 0 0 1 1 0 0"
  "rotGlobalToECEF default_object = Matrix3d 0 0 1 1 0 0 0 1 0"
  "cosHea default_object = 1" "sinHea default_object = 0"
  "origin default_object = Vector3d g_EarthWGS84AxisEquatorial 0 0"
  "ellA default_object = g_EarthWGS84AxisEquatorial"
  "ellB default_object = g_EarthWGS84AxisPolar"
  "ellE default_object = sqrt (1 - g_EarthWGS84AxisPolar\<^sup>2 / g_EarthWGS84AxisEquatorial\<^sup>2)"
  "latitudeReference default_object = Angle 0"
  "longitudeReference default_object = Angle 0"
  "headingOffset default_object = Angle 0"
  "elevationReference default_object = 0"
  by (simp_all add: default_object_def SphericalCoordinates_def
      new_SphericalCoordinatesPrivate_def SetElevationReference_def Update_fields
      SetSurface_WGS84 PositionTransform_SPHERICAL_ECEF spec_rotECEFToGlobal_def
      spec_rotGlobalToECEF_def Let_def zeroed_memory_def)

lemma cache_current_default: "cache_current default_object"
  by (simp add: default_object_def SphericalCoordinates_def Let_def SetElevationReference_def
      cache_current_Update)

lemma rotation_cache_default: "rotation_cache_current default_object"
  using cache_current_default by (simp add: cache_current_def)

lemma heading_pi_object_fields:
  "rotECEFToGlobal heading_pi_object = Matrix3d 0 1 0 0 0 1 1 0 0"
  "rotGlobalToECEF heading_pi_object = Matrix3d 0 0 1 1 0 0 0 1 0"
  "cosHea heading_pi_object = - 1" "sinHea heading_pi_object = 0"
  "origin heading_pi_object = Vector3d g_EarthWGS84AxisEquatorial 0 0"
  "headingOffset heading_pi_object = Angle pi"
  by (simp_all add: heading_pi_object_def SetHeadingOffset_def Update_fields
      default_object_fields PositionTransform_SPHERICAL_ECEF spec_rotECEFToGlobal_def
      spec_rotGlobalToECEF_def)

lemma LOCAL_default:
  "fst (PositionTransform default_object (Vector3d 1 0 0) LOCAL GLOBAL) = Vector3d (- 1) 0 0"
  "fst (PositionTransform default_object (Vector3d (- 1) 0 0) GLOBAL LOCAL) = Vector3d (- 1) 0 0"
  "fst (PositionTransform default_object (Vector3d 1 0 0) LOCAL LOCAL) = Vector3d (- 1) 0 0"
  by (simp_all add: PositionTransform_pivot[of _ _ default_object]
       PositionTransform_to_ECEF PositionTransform_from_ECEF default_object_fields
       spec_rotate_LOCAL_def spec_rotate_back_def plus_Vector3d_def minus_Vector3d_def)

lemma LOCAL_heading_pi:
  "fst (PositionTransform heading_pi_object (Vector3d 1 0 0) LOCAL ECEF) =
     Vector3d g_EarthWGS84AxisEquatorial 1 0"
  "fst (PositionTransform heading_pi_object (Vector3d g_EarthWGS84AxisEquatorial 1 0) ECEF LOCAL) =
     Vector3d (- 1) 0 0"
  by (simp_all add: PositionTransform_to_ECEF PositionTransform_from_ECEF
       heading_pi_object_fields spec_rotate_LOCAL_def spec_rotate_back_def plus_Vector3d_def
       minus_Vector3d_def)

lemma SPHERICAL_default:
  "fst (PositionTransform default_object (Vector3d 0 (3 * pi / 2) 0) SPHERICAL ECEF) =
     Vector3d 0 (- g_EarthWGS84AxisEquatorial) 0"
  "fst (PositionTransform default_object (Vector3d 0 (- g_EarthWGS84AxisEquatorial) 0)
          ECEF SPHERICAL) = Vector3d 0 (- pi / 2) 0"
  "fst (PositionTransform default_object (Vector3d 0 (3 * pi / 2) 0) SPHERICAL SPHERICAL) =
     Vector3d 0 (- pi / 2) 0"
proof -
  show 1: "fst (PositionTransform default_object (Vector3d 0 (3 * pi / 2) 0) SPHERICAL ECEF) =
     Vector3d 0 (- g_EarthWGS84AxisEquatorial) 0"
    by (simp add: PositionTransform_SPHERICAL_ECEF default_object_fields sin_cos_270)
  show 2: "fst (PositionTransform default_object (Vector3d 0 (- g_EarthWGS84AxisEquatorial) 0)
          ECEF SPHERICAL) = Vector3d 0 (- pi / 2) 0"
    by (simp add: PositionTransform_def default_object_fields Let_def set_X_def set_Y_def
        set_Z_def atan2_def g_EarthWGS84AxisEquatorial_def)
  show "fst (PositionTransform default_object (Vector3d 0 (3 * pi / 2) 0) SPHERICAL SPHERICAL) =
     Vector3d 0 (- pi / 2) 0"
    using PositionTransform_pivot[of SPHERICAL SPHERICAL default_object
            "Vector3d 0 (3 * pi / 2) 0"] 1 2
    by simp
qed

lemma not_within_tolerance_1: "\<not> within_tolerance (- 1) 1"
  by (simp add: within_tolerance_def)

lemma not_within_tolerance_pi: "\<not> within_tolerance (- pi / 2) (3 * pi / 2)"
proof -
  have "max 1 (max \<bar>- pi / 2\<bar> \<bar>3 * pi / 2\<bar>) = 3 * pi / 2"
    using pi_ge_two by (simp add: max_def abs_if)
  moreover have "\<bar>- pi / 2 - 3 * pi / 2\<bar> = 2 * pi"
    using pi_ge_two by (simp add: abs_if)
  ultimately show ?thesis
    unfolding within_tolerance_def using pi_ge_two by simp
qed

section \<open>Round trips and identity of \<open>PositionTransform\<close>\<close>

text \<open>
  Claim C1, as stated: for every position and every pair of the five frames, the
  transform from \<open>A\<close> to \<open>B\<close> followed by the transform from \<open>B\<close> to \<open>A\<close> returns the
  position within the tolerance. It fails: in the default object, \<open>(1, 0, 0)\<close> taken from
  \<open>LOCAL\<close> to \<open>GLOBAL\<close> and back comes back as \<open>(-1, 0, 0)\<close>; with a heading offset of
  half a turn, \<open>(1, 0, 0)\<close> taken from \<open>LOCAL\<close> to \<open>ECEF\<close> and back comes back as
  \<open>(-1, 0, 0)\<close>; and the geodetic position with longitude \<open>3\<pi>/2\<close> taken from \<open>SPHERICAL\<close>
  to \<open>ECEF\<close> and back comes back with longitude \<open>-\<pi>/2\<close>.
\<close>

theorem PositionTransform_round_trip_fails:
  "\<not> approx_Vector3d
       (fst (PositionTransform default_object
               (fst (PositionTransform default_object (Vector3d 1 0 0) LOCAL GLOBAL))
               GLOBAL LOCAL))
       (Vector3d 1 0 0) \<and>
   \<not> approx_Vector3d
       (fst (PositionTransform heading_pi_object
               (fst (PositionTransform heading_pi_object (Vector3d 1 0 0) LOCAL ECEF))
               ECEF LOCAL))
       (Vector3d 1 0 0) \<and>
   \<not> approx_Vector3d
       (fst (PositionTransform default_object
               (fst (PositionTransform default_object (Vector3d 0 (3 * pi / 2) 0)
                       SPHERICAL ECEF))
               ECEF SPHERICAL))
       (Vector3d 0 (3 * pi / 2) 0)"
  using not_within_tolerance_1 not_within_tolerance_pi
  by (simp add: LOCAL_default LOCAL_heading_pi SPHERICAL_default approx_Vector3d_def)

text \<open>
  Claim C1, amended: when the cached rotations and heading terms are those of the stored
  reference, then for every position \<open>p\<close> and all frames \<open>A\<close>, \<open>B\<close> among \<open>LOCAL2\<close>,
  \<open>GLOBAL\<close> and \<open>ECEF\<close>, the transform from \<open>A\<close> to \<open>B\<close> followed by the transform from
  \<open>B\<close> to \<open>A\<close> returns \<open>p\<close>, exactly in real arithmetic, and writes no message.
\<close>

theorem PositionTransform_round_trip:
  assumes cache: "rotation_cache_current d"
      and A: "A \<in> {LOCAL2, GLOBAL, ECEF}"
      and B: "B \<in> {LOCAL2, GLOBAL, ECEF}"
  shows "PositionTransform d (fst (PositionTransform d p A B)) B A = (p, [])"
proof -
  have rA: "A \<in> {SPHERICAL, ECEF, GLOBAL, LOCAL, LOCAL2}"
    and rB: "B \<in> {SPHERICAL, ECEF, GLOBAL, LOCAL, LOCAL2}"
    using A B by auto
  let ?q = "fst (PositionTransform d p A ECEF)"
  have "PositionTransform d p A B = PositionTransform d ?q ECEF B"
    by (rule PositionTransform_pivot[OF rA rB])
  then have "PositionTransform d (fst (PositionTransform d p A B)) B A
           = PositionTransform d (fst (PositionTransform d ?q ECEF B)) B A"
    by simp
  also have "\<dots> = PositionTransform d
                     (fst (PositionTransform d (fst (PositionTransform d ?q ECEF B)) B ECEF))
                     ECEF A"
    by (rule PositionTransform_pivot[OF rB rA])
  also have "\<dots> = PositionTransform d ?q ECEF A"
    by (simp add: from_ECEF_to_ECEF[OF cache B])
  also have "\<dots> = (p, [])"
    by (rule to_ECEF_from_ECEF[OF cache A])
  finally show ?thesis .
qed

theorem PositionTransform_round_trip_witness:
  "rotation_cache_current default_object \<and>
   LOCAL2 \<in> {LOCAL2, GLOBAL, ECEF} \<and> GLOBAL \<in> {LOCAL2, GLOBAL, ECEF} \<and>
   PositionTransform default_object
     (fst (PositionTransform default_object (Vector3d 1 2 3) LOCAL2 GLOBAL)) GLOBAL LOCAL2
     = (Vector3d 1 2 3, [])"
  using PositionTransform_round_trip[of default_object LOCAL2 GLOBAL "Vector3d 1 2 3"]
    rotation_cache_default
  by simp

text \<open>
  Claim C5, as stated: the transform from \<open>ECEF\<close> to \<open>ECEF\<close> returns the position itself,
  and the transform from any of the five frames to itself returns the position within
  the tolerance, in every state. It fails: in the default object the transform from
  \<open>LOCAL\<close> to \<open>LOCAL\<close> takes \<open>(1, 0, 0)\<close> to \<open>(-1, 0, 0)\<close>, and the transform from
  \<open>SPHERICAL\<close> to \<open>SPHERICAL\<close> takes the longitude \<open>3\<pi>/2\<close> to \<open>-\<pi>/2\<close>.
\<close>

theorem PositionTransform_same_frame_fails:
  "\<not> approx_Vector3d
       (fst (PositionTransform default_object (Vector3d 1 0 0) LOCAL LOCAL))
       (Vector3d 1 0 0) \<and>
   \<not> approx_Vector3d
       (fst (PositionTransform default_object (Vector3d 0 (3 * pi / 2) 0) SPHERICAL SPHERICAL))
       (Vector3d 0 (3 * pi / 2) 0)"
  using not_within_tolerance_1 not_within_tolerance_pi
  by (simp add: LOCAL_default SPHERICAL_default approx_Vector3d_def)

text \<open>
  Claim C5, amended: the transform from \<open>ECEF\<close> to \<open>ECEF\<close> returns the position itself
  and writes no message, in every state; and when the cached rotations and heading terms
  are those of the stored reference, the transform from \<open>GLOBAL\<close> to \<open>GLOBAL\<close> and the
  transform from \<open>LOCAL2\<close> to \<open>LOCAL2\<close> return the position, exactly in real arithmetic.
\<close>

theorem PositionTransform_same_frame:
  "PositionTransform d p ECEF ECEF = (p, []) \<and>
   (rotation_cache_current d \<longrightarrow>
      PositionTransform d p GLOBAL GLOBAL = (p, []) \<and>
      PositionTransform d p LOCAL2 LOCAL2 = (p, []))"
proof -
  have "PositionTransform d p F F = (p, [])"
    if "rotation_cache_current d" "F \<in> {LOCAL2, GLOBAL, ECEF}" for F
  proof -
    have r: "F \<in> {SPHERICAL, ECEF, GLOBAL, LOCAL, LOCAL2}"
      using that(2) by auto
    have "PositionTransform d p F F
        = PositionTransform d (fst (PositionTransform d p F ECEF)) ECEF F"
      by (rule PositionTransform_pivot[OF r r])
    then show ?thesis
      using to_ECEF_from_ECEF[OF that] by simp
  qed
  then show ?thesis
    by (simp add: PositionTransform_to_ECEF)
qed

theorem PositionTransform_same_frame_witness:
  "rotation_cache_current default_object \<and>
   PositionTransform default_object (Vector3d 1 2 3) GLOBAL GLOBAL = (Vector3d 1 2 3, []) \<and>
   PositionTransform default_object (Vector3d 1 2 3) LOCAL2 LOCAL2 = (Vector3d 1 2 3, [])"
  using PositionTransform_same_frame[of default_object "Vector3d 1 2 3"]
    rotation_cache_default
  by simp

section \<open>The geodetic conversions\<close>

text \<open>
  Claim C2: with input frame \<open>SPHERICAL\<close> and position \<open>(lat, lon, elev)\<close>, stage 1 of
  \<open>PositionTransform\<close> produces the \<open>ECEF\<close> point
  \<open>x = (elev + N) cos lat cos lon\<close>, \<open>y = (elev + N) cos lat sin lon\<close>,
  \<open>z = ((b\<^sup>2/a\<^sup>2) N + elev) sin lat\<close> with \<open>N = a / sqrt (1 - e\<^sup>2 sin\<^sup>2 lat)\<close>, for the output
  frame \<open>ECEF\<close> and as the input of stage 2 for every recognised output frame; with output
  frame \<open>SPHERICAL\<close>, stage 2 applies Bowring's closed form, with the second eccentricity
  in the numerator, \<open>atan2\<close> for the longitude and the curvature recomputed at the new
  latitude, to the \<open>ECEF\<close> point itself and to the \<open>ECEF\<close> point of stage 1 for every
  recognised input frame.
\<close>

theorem PositionTransform_SPHERICAL_formulas:
  "PositionTransform d pos SPHERICAL ECEF =
     (spec_geodetic_to_ECEF (ellA d) (ellB d) (ellE d) pos, []) \<and>
   (out \<in> {SPHERICAL, ECEF, GLOBAL, LOCAL, LOCAL2} \<longrightarrow>
      PositionTransform d pos SPHERICAL out =
        PositionTransform d (spec_geodetic_to_ECEF (ellA d) (ellB d) (ellE d) pos) ECEF out) \<and>
   PositionTransform d v ECEF SPHERICAL =
     (spec_Bowring (ellA d) (ellB d) (ellE d) (ellP d) v, []) \<and>
   (inp \<in> {SPHERICAL, ECEF, GLOBAL, LOCAL, LOCAL2} \<longrightarrow>
      PositionTransform d pos inp SPHERICAL =
        (spec_Bowring (ellA d) (ellB d) (ellE d) (ellP d)
           (fst (PositionTransform d pos inp ECEF)), []))"
proof -
  have to: "PositionTransform d pos SPHERICAL ECEF =
              (spec_geodetic_to_ECEF (ellA d) (ellB d) (ellE d) pos, [])"
    by (simp add: PositionTransform_SPHERICAL_ECEF spec_geodetic_to_ECEF_def
        spec_curvature_def Let_def power2_eq_square mult.assoc)
  have "from": "PositionTransform d w ECEF SPHERICAL =
              (spec_Bowring (ellA d) (ellB d) (ellE d) (ellP d) w, [])" for w
    by (simp add: PositionTransform_def spec_Bowring_def spec_curvature_def Let_def
        set_X_def set_Y_def set_Z_def power2_eq_square)
  have S: "SPHERICAL \<in> {SPHERICAL, ECEF, GLOBAL, LOCAL, LOCAL2}"
    by simp
  have 1: "PositionTransform d pos SPHERICAL out =
        PositionTransform d (spec_geodetic_to_ECEF (ellA d) (ellB d) (ellE d) pos) ECEF out"
    if "out \<in> {SPHERICAL, ECEF, GLOBAL, LOCAL, LOCAL2}"
    using PositionTransform_pivot[OF S that, of d pos] to by simp
  have 2: "PositionTransform d pos inp SPHERICAL =
        (spec_Bowring (ellA d) (ellB d) (ellE d) (ellP d)
           (fst (PositionTransform d pos inp ECEF)), [])"
    if "inp \<in> {SPHERICAL, ECEF, GLOBAL, LOCAL, LOCAL2}"
    using PositionTransform_pivot[OF that S, of d pos] "from" by simp
  show ?thesis
    using to "from" 1 2 by blast
qed

theorem PositionTransform_SPHERICAL_formulas_witness:
  "GLOBAL \<in> {SPHERICAL, ECEF, GLOBAL, LOCAL, LOCAL2} \<and>
   PositionTransform default_object (Vector3d 0 0 5) SPHERICAL GLOBAL =
     PositionTransform default_object
       (spec_geodetic_to_ECEF (ellA default_object) (ellB default_object)
          (ellE default_object) (Vector3d 0 0 5)) ECEF GLOBAL \<and>
   LOCAL \<in> {SPHERICAL, ECEF, GLOBAL, LOCAL, LOCAL2} \<and>
   PositionTransform default_object (Vector3d 0 0 5) LOCAL SPHERICAL =
     (spec_Bowring (ellA default_object) (ellB default_object) (ellE default_object)
        (ellP default_object)
        (fst (PositionTransform default_object (Vector3d 0 0 5) LOCAL ECEF)), [])"
  using PositionTransform_SPHERICAL_formulas[of default_object "Vector3d 0 0 5" GLOBAL _ LOCAL]
  by simp

section \<open>The heading rotations of stage 1\<close>

text \<open>
  Claim C4, as stated: stage 1 rotates \<open>(x, y)\<close> by \<open>(-cosHea, sinHea; -sinHea, -cosHea)\<close>
  for \<open>LOCAL\<close> and by \<open>(cosHea, sinHea; -sinHea, cosHea)\<close> for \<open>LOCAL2\<close>, then composes
  \<open>origin + rotGlobalToECEF \<cdot> rotated\<close>, and the \<open>LOCAL2\<close> result differs from the \<open>LOCAL\<close>
  result only in the sign applied to the first rotated component. The last part fails: in
  the default object at \<open>(0, 1, 0)\<close> the first rotated component is \<open>0\<close> in both frames,
  and the second is \<open>-1\<close> for \<open>LOCAL\<close> and \<open>1\<close> for \<open>LOCAL2\<close>.
\<close>

theorem LOCAL2_first_sign_only_fails:
  "\<not> LOCAL2_is_LOCAL_up_to_first_sign default_object (Vector3d 0 1 0)"
  by (simp add: LOCAL2_is_LOCAL_up_to_first_sign_def PositionTransform_to_ECEF
      default_object_fields spec_rotate_LOCAL_def spec_rotate_LOCAL2_def Let_def
      plus_Vector3d_def)

text \<open>
  Claim C4, amended: stage 1 rotates \<open>(x, y)\<close> by \<open>(-cosHea, sinHea; -sinHea, -cosHea)\<close>
  for \<open>LOCAL\<close> and by \<open>(cosHea, sinHea; -sinHea, cosHea)\<close> for \<open>LOCAL2\<close>, then composes
  \<open>origin + rotGlobalToECEF \<cdot> rotated\<close>; the rotated vector of \<open>LOCAL2\<close> is that of
  \<open>LOCAL\<close> plus \<open>2 cosHea \<cdot> (x, y, 0)\<close>, that is, the two matrices differ in the sign of
  both \<open>cosHea\<close> entries, and the \<open>LOCAL2\<close> result is the \<open>LOCAL\<close> result computed with
  \<open>cosHea\<close> negated.
\<close>

theorem LOCAL_LOCAL2_stage1:
  "PositionTransform d p LOCAL ECEF =
     (origin d + times_Matrix3d (rotGlobalToECEF d)
                   (spec_rotate_LOCAL (cosHea d) (sinHea d) p), []) \<and>
   PositionTransform d p LOCAL2 ECEF =
     (origin d + times_Matrix3d (rotGlobalToECEF d)
                   (spec_rotate_LOCAL2 (cosHea d) (sinHea d) p), []) \<and>
   spec_rotate_LOCAL2 (cosHea d) (sinHea d) p =
     spec_rotate_LOCAL (cosHea d) (sinHea d) p
       + Vector3d (2 * cosHea d * X p) (2 * cosHea d * Y p) 0 \<and>
   PositionTransform d p LOCAL2 ECEF =
     PositionTransform (d\<lparr>cosHea := - cosHea d\<rparr>) p LOCAL ECEF"
  by (simp add: PositionTransform_to_ECEF spec_rotate_LOCAL_def spec_rotate_LOCAL2_def
      plus_Vector3d_def)

section \<open>The mutators and the cache\<close>

text \<open>
  Claim C3: each of the five mutators rebuilds the whole cache before it returns, so
  that afterwards the cached rotations, heading terms and origin equal their
  recomputation from the stored reference and ellipsoid. The four setters of the
  reference do: after each of them the cache is current, whatever the state before.
  \<open>SetSurface\<close> does not: it returns with the five cached values as they were before
  the call, so the cache is current afterwards exactly when the cached rotations and
  heading terms were current before and the origin cached before is the recomputation
  with the ellipsoid parameters that the call has stored.
\<close>

theorem SetSurface_does_not_rebuild:
  "cache_current (fst (SetLatitudeReference d a)) \<and>
   cache_current (fst (SetLongitudeReference d a)) \<and>
   cache_current (fst (SetElevationReference d e)) \<and>
   cache_current (fst (SetHeadingOffset d a)) \<and>
   rotECEFToGlobal (fst (SetSurface d t)) = rotECEFToGlobal d \<and>
   rotGlobalToECEF (fst (SetSurface d t)) = rotGlobalToECEF d \<and>
   cosHea (fst (SetSurface d t)) = cosHea d \<and>
   sinHea (fst (SetSurface d t)) = sinHea d \<and>
   origin (fst (SetSurface d t)) = origin d \<and>
   cache_current (fst (SetSurface d t)) =
     (rotation_cache_current d \<and>
      origin d =
        fst (PositionTransform (fst (SetSurface d t))
               (Vector3d (Radian (latitudeReference d)) (Radian (longitudeReference d))
                         (elevationReference d))
               SPHERICAL ECEF))"
proof -
  have setters:
    "cache_current (fst (SetLatitudeReference d a))"
    "cache_current (fst (SetLongitudeReference d a))"
    "cache_current (fst (SetElevationReference d e))"
    "cache_current (fst (SetHeadingOffset d a))"
    unfolding SetLatitudeReference_def SetLongitudeReference_def SetElevationReference_def
      SetHeadingOffset_def
    by (rule cache_current_Update)+
  have after: "cache_current (fst (SetSurface d t)) =
     (rotation_cache_current d \<and>
      origin d =
        fst (PositionTransform (fst (SetSurface d t))
               (Vector3d (Radian (latitudeReference d)) (Radian (longitudeReference d))
                         (elevationReference d))
               SPHERICAL ECEF))"
    by (simp add: cache_current_def rotation_cache_SetSurface origin_current_def
        SetSurface_fields)
  show ?thesis
    using setters after by (simp add: SetSurface_fields)
qed

section \<open>Unrecognised tags\<close>

text \<open>
  Claim C7: \<open>SetSurface\<close> with a surface type that is not recognised writes one
  diagnostic, stores the new tag as the surface type, and leaves \<open>a\<close>, \<open>b\<close>, \<open>f\<close>, \<open>e\<close>
  and \<open>p\<close>, as every other member, exactly as they were.
\<close>

theorem SetSurface_unrecognised:
  "SetSurface d (UnknownSurface n) =
     (d\<lparr>surfaceType := UnknownSurface n\<rparr>, [Unknown_surface_type (UnknownSurface n)]) \<and>
   surfaceType (fst (SetSurface d (UnknownSurface n))) = UnknownSurface n \<and>
   ellA (fst (SetSurface d (UnknownSurface n))) = ellA d \<and>
   ellB (fst (SetSurface d (UnknownSurface n))) = ellB d \<and>
   ellF (fst (SetSurface d (UnknownSurface n))) = ellF d \<and>
   ellE (fst (SetSurface d (UnknownSurface n))) = ellE d \<and>
   ellP (fst (SetSurface d (UnknownSurface n))) = ellP d"
  by (simp add: SetSurface_def)

text \<open>
  Claim C8: when the input frame of \<open>PositionTransform\<close> is not recognised, the input
  position is returned unchanged with one diagnostic about the input frame, whatever the
  output frame, so stage 2 does not run; when the input frame is one of the five
  recognised ones and the output frame is not recognised, the original input position,
  not the \<open>ECEF\<close> point of stage 1, is returned with one diagnostic about the output frame.
\<close>

theorem PositionTransform_unrecognised:
  "PositionTransform d p (UnknownCoordinate n) out =
     (p, [Invalid_coordinate_type (UnknownCoordinate n)]) \<and>
   PositionTransform d p SPHERICAL (UnknownCoordinate m) =
     (p, [Unknown_coordinate_type (UnknownCoordinate m)]) \<and>
   PositionTransform d p ECEF (UnknownCoordinate m) =
     (p, [Unknown_coordinate_type (UnknownCoordinate m)]) \<and>
   PositionTransform d p GLOBAL (UnknownCoordinate m) =
     (p, [Unknown_coordinate_type (UnknownCoordinate m)]) \<and>
   PositionTransform d p LOCAL (UnknownCoordinate m) =
     (p, [Unknown_coordinate_type (UnknownCoordinate m)]) \<and>
   PositionTransform d p LOCAL2 (UnknownCoordinate m) =
     (p, [Unknown_coordinate_type (UnknownCoordinate m)])"
  by (simp add: PositionTransform_def Let_def)

section \<open>\<open>VelocityTransform\<close>\<close>

text \<open>
  Claim C6: when the input frame or the output frame is \<open>SPHERICAL\<close>,
  \<open>VelocityTransform\<close> returns the velocity unchanged and writes no diagnostic, for
  every velocity and every other frame tag, recognised or not. The method is \<open>const\<close>
  and assigns to no member, so the function of the model has no state to return.
\<close>

theorem VelocityTransform_SPHERICAL:
  "VelocityTransform d v SPHERICAL out = (v, []) \<and>
   VelocityTransform d v inp SPHERICAL = (v, [])"
  by (simp add: VelocityTransform_def)

subsection \<open>Linearity\<close>

lemma VelocityTransform_stages:
  assumes "inp \<in> {LOCAL, LOCAL2, GLOBAL, ECEF}" "out \<in> {LOCAL, LOCAL2, GLOBAL, ECEF}"
  shows "VelocityTransform d v inp out =
           (velocity_from_ECEF d out (velocity_to_ECEF d inp v), [])"
  using assms unfolding VelocityTransform_def Let_def rotate_LOCAL_eq
  by (auto simp add: velocity_from_ECEF_def velocity_to_ECEF_def spec_rotate_back_def)

lemma velocity_stage_linear:
  "velocity_to_ECEF d inp (u + v) = velocity_to_ECEF d inp u + velocity_to_ECEF d inp v"
  "velocity_from_ECEF d out (u + v) = velocity_from_ECEF d out u + velocity_from_ECEF d out v"
  "velocity_to_ECEF d inp (scale k v) = scale k (velocity_to_ECEF d inp v)"
  "velocity_from_ECEF d out (scale k v) = scale k (velocity_from_ECEF d out v)"
  "velocity_to_ECEF d inp 0 = 0"
  "velocity_from_ECEF d out 0 = 0"
  by (simp_all add: velocity_to_ECEF_def velocity_from_ECEF_def rotate_linear
       times_Matrix3d_add times_Matrix3d_scale times_Matrix3d_zero
       split: CoordinateType.split)

lemma velocity_stage_origin:
  "velocity_to_ECEF (d\<lparr>origin := o'\<rparr>) inp v = velocity_to_ECEF d inp v"
  "velocity_from_ECEF (d\<lparr>origin := o'\<rparr>) out w = velocity_from_ECEF d out w"
  by (simp_all add: velocity_to_ECEF_def velocity_from_ECEF_def split: CoordinateType.split)

text \<open>
  Claim C10: for input and output frames among \<open>LOCAL\<close>, \<open>LOCAL2\<close>, \<open>GLOBAL\<close> and
  \<open>ECEF\<close>, \<open>VelocityTransform\<close> is a linear map of the velocity: it distributes over
  sums, commutes with scaling by a number, and takes the zero vector to the zero vector;
  and its result does not depend on the cached origin, which is never added.
\<close>

theorem VelocityTransform_linear:
  assumes "inp \<in> {LOCAL, LOCAL2, GLOBAL, ECEF}" and "out \<in> {LOCAL, LOCAL2, GLOBAL, ECEF}"
  shows "fst (VelocityTransform d (u + v) inp out) =
           fst (VelocityTransform d u inp out) + fst (VelocityTransform d v inp out) \<and>
         fst (VelocityTransform d (scale k v) inp out) =
           scale k (fst (VelocityTransform d v inp out)) \<and>
         fst (VelocityTransform d 0 inp out) = 0 \<and>
         VelocityTransform (d\<lparr>origin := o'\<rparr>) v inp out = VelocityTransform d v inp out"
  by (simp add: VelocityTransform_stages[OF assms] velocity_stage_linear
      velocity_stage_origin)

theorem VelocityTransform_linear_witness:
  "LOCAL \<in> {LOCAL, LOCAL2, GLOBAL, ECEF} \<and> GLOBAL \<in> {LOCAL, LOCAL2, GLOBAL, ECEF} \<and>
   fst (VelocityTransform default_object (Vector3d 1 2 3 + Vector3d 4 5 6) LOCAL GLOBAL) =
     fst (VelocityTransform default_object (Vector3d 1 2 3) LOCAL GLOBAL)
       + fst (VelocityTransform default_object (Vector3d 4 5 6) LOCAL GLOBAL) \<and>
   fst (VelocityTransform default_object (scale 2 (Vector3d 4 5 6)) LOCAL GLOBAL) =
     scale 2 (fst (VelocityTransform default_object (Vector3d 4 5 6) LOCAL GLOBAL)) \<and>
   fst (VelocityTransform default_object 0 LOCAL GLOBAL) = 0 \<and>
   VelocityTransform (default_object\<lparr>origin := Vector3d 7 8 9\<rparr>) (Vector3d 4 5 6) LOCAL GLOBAL =
     VelocityTransform default_object (Vector3d 4 5 6) LOCAL GLOBAL"
  using VelocityTransform_linear[of LOCAL GLOBAL default_object "Vector3d 1 2 3"
          "Vector3d 4 5 6" 2 "Vector3d 7 8 9"]
  by simp


end
